theory Spec2Isabelle
  imports Complex_Main "HOL-Library.Word"
begin

section \<open>Holonomic trajectory manager: data model\<close>

text \<open>
  The C sources compute with \<open>float\<close> and \<open>double\<close>. The embedding reads both as
  \<^typ>\<open>real\<close>: \<open>M_PI\<close> is \<^term>\<open>pi\<close>, \<open>M_PI_2\<close> is \<^term>\<open>pi / 2\<close> (the
  constant of \<open>math.h\<close>: pi divided by two), and \<open>cos\<close>, \<open>sin\<close>, \<open>sqrtf\<close> and
  \<open>pow(v, 2)\<close> are the real functions. Rounding is not part of the model.
  \<open>int32_t\<close> and \<open>int\<close> are \<^typ>\<open>32 word\<close> read in two's complement, \<open>int8_t\<close> is
  \<^typ>\<open>8 word\<close>.
\<close>

text \<open>\<open>vect2_cart\<close>: the fields \<open>x\<close> and \<open>y\<close> of the C struct.\<close>

record vect2_cart =
  cart_x :: real
  cart_y :: real

datatype h_trajectory_moving_state = MOVING_STRAIGHT | MOVING_CIRCLE | MOVING_IDLE

datatype h_trajectory_turning_state =
  TURNING_CAP | TURNING_SPEEDOFFSET | TURNING_FACEPOINT | TURNING_IDLE

text \<open>
  Modelled from the spec: the position manager is not in the sources; the position
  source supplies the current \<open>(x, y)\<close>, the heading in radians and the heading of the
  velocity vector. The record holds what its getters return: \<open>holonomic_position_get_x_double\<close>,
  \<open>holonomic_position_get_y_double\<close>, \<open>holonomic_position_get_a_rad_double\<close> (and its
  \<open>float\<close> variant), \<open>holonomic_position_get_theta_v\<close> and
  \<open>holonomic_position_get_theta_v_int\<close>.
\<close>

record holonomic_robot_position =
  pos_x :: real
  pos_y :: real
  pos_a_rad :: real
  pos_theta_v :: real
  pos_theta_v_int :: "32 word"

text \<open>
  Modelled from the spec: the robot system is not in the sources; the drive sink accepts
  an integer speed, an integer direction and an integer rotation speed.
  \<open>struct robot_system_holonomic\<close> is the sequence of the setter calls it received,
  oldest first.
\<close>

datatype rsh_call =
  Rsh_set_speed "32 word"
| Rsh_set_direction_int "32 word"
| Rsh_set_rotation_speed "32 word"

type_synonym robot_system_holonomic = "rsh_call list"

definition rsh_set_speed :: "robot_system_holonomic \<Rightarrow> 32 word \<Rightarrow> robot_system_holonomic" where
  "rsh_set_speed rs v = rs @ [Rsh_set_speed v]"

definition rsh_set_direction_int :: "robot_system_holonomic \<Rightarrow> 32 word \<Rightarrow> robot_system_holonomic" where
  "rsh_set_direction_int rs v = rs @ [Rsh_set_direction_int v]"

definition rsh_set_rotation_speed :: "robot_system_holonomic \<Rightarrow> 32 word \<Rightarrow> robot_system_holonomic" where
  "rsh_set_rotation_speed rs v = rs @ [Rsh_set_rotation_speed v]"

text \<open>
  \<open>struct h_trajectory\<close>. The fields \<open>speed\<close>, \<open>direction\<close>, \<open>omega\<close>, the three ramp
  pointers and \<open>cs_hz\<close> are never read or written by the functions below and are left
  out. The pointers \<open>position\<close> and \<open>robot\<close> are replaced by what they point to.
\<close>

record h_trajectory =
  moving_state :: h_trajectory_moving_state
  turning_state :: h_trajectory_turning_state
  xy_target :: vect2_cart
  a_target :: real
  circle_center :: vect2_cart
  arc_angle :: real
  radius :: real
  point2face :: vect2_cart
  d_win :: real
  a_win :: real
  end_of_traj :: "8 word"
  position :: holonomic_robot_position
  robot :: robot_system_holonomic
  scheduler_task :: "8 word"

text \<open>
  What lives outside the struct: the file-level \<open>static int prev_speed\<close>, the
  function-level \<open>static vect2_cart keyframe\<close> of the periodic event, the scheduler (the
  handles of the events it has registered) and the text written by \<open>DEBUG\<close>.
  Output of \<open>printf\<close> is not modelled.
\<close>

record world =
  traj :: h_trajectory
  prev_speed :: "32 word"
  keyframe :: vect2_cart
  scheduler :: "8 word list"
  debug_log :: "string list"

section \<open>Library functions the sources call\<close>

text \<open>\<open>atan2f(y, x)\<close> of the C library, on the reals.\<close>

definition atan2f :: "real \<Rightarrow> real \<Rightarrow> real" where
  "atan2f y x =
     (if 0 < x then arctan (y / x)
      else if x < 0 then (if 0 \<le> y then arctan (y / x) + pi else arctan (y / x) - pi)
      else if 0 < y then pi / 2
      else if y < 0 then - (pi / 2)
      else 0)"

text \<open>
  A conversion \<open>(int32_t) r\<close> truncates towards zero. C leaves it undefined when the
  truncated value does not fit 32 bits; the model keeps the low 32 bits there, and
  every statement that depends on the value bounds \<open>r\<close>.
\<close>

definition int32_of_real :: "real \<Rightarrow> 32 word" where
  "int32_of_real r = word_of_int (if 0 \<le> r then \<lfloor>r\<rfloor> else \<lceil>r\<rceil>)"

text \<open>
  Modelled from the spec: \<open>vect2_dist_cart\<close> of the vector module is not in the sources;
  it is the Euclidean distance of two points.
\<close>

definition vect2_dist_cart :: "vect2_cart \<Rightarrow> vect2_cart \<Rightarrow> real" where
  "vect2_dist_cart v1 v2 = sqrt ((cart_x v1 - cart_x v2)\<^sup>2 + (cart_y v1 - cart_y v2)\<^sup>2)"

text \<open>
  Modelled from the spec: \<open>vect2_angle_vec_x_rad_cart\<close> of the vector module is not in the
  sources; it is the angle of a vector against the x axis, in radians.
\<close>

definition vect2_angle_vec_x_rad_cart :: "vect2_cart \<Rightarrow> real" where
  "vect2_angle_vec_x_rad_cart vc = atan2f (cart_y vc) (cart_x vc)"

text \<open>
  Modelled from the spec: the macro \<open>TO_DEG\<close> is not in the sources; the direction consign
  of the drive sink is in degrees, so it converts radians to degrees.
\<close>

definition TO_DEG :: "real \<Rightarrow> real" where
  "TO_DEG r = r * 180 / pi"

text \<open>
  Modelled from the spec: the macro \<open>ABS\<close> is not in the sources; the spec reads
  \<open>ABS(d_a)\<close> as the absolute value of \<open>d_a\<close>.
\<close>

definition ABS :: "real \<Rightarrow> real" where
  "ABS v = (if v < 0 then - v else v)"

section \<open>Angle utilities\<close>

definition holonomic_simple_modulo_2pi :: "real \<Rightarrow> real" where
  "holonomic_simple_modulo_2pi a =
     (if a < - pi then a + pi / 2
      else if a > pi then a - pi / 2
      else a)"

definition holonomic_modulo_2pi :: "real \<Rightarrow> real" where
  "holonomic_modulo_2pi a =
     (let res = a - real_of_int (sint (int32_of_real (a / (pi / 2)))) * (pi / 2)
      in holonomic_simple_modulo_2pi res)"

definition holonomic_best_delta_angle_rad :: "real \<Rightarrow> real" where
  "holonomic_best_delta_angle_rad a =
     (if a > pi then a - 2 * pi
      else if a < - pi then 2 * pi - a
      else a)"

definition holonomic_angle_facepoint_rad :: "h_trajectory \<Rightarrow> vect2_cart \<Rightarrow> real" where
  "holonomic_angle_facepoint_rad t fpc =
     (let a_fp = vect2_angle_vec_x_rad_cart fpc;
          d_a = a_fp - pos_a_rad (position t)
      in holonomic_best_delta_angle_rad d_a)"

definition holonomic_angle_2_speed_rad :: "h_trajectory \<Rightarrow> real \<Rightarrow> real" where
  "holonomic_angle_2_speed_rad t ao =
     (let d_a = (pos_theta_v (position t) + ao) - pos_a_rad (position t)
      in holonomic_best_delta_angle_rad d_a)"

definition holonomic_angle_2_x_rad :: "h_trajectory \<Rightarrow> real \<Rightarrow> real" where
  "holonomic_angle_2_x_rad t a =
     (let d_a = a - pos_a_rad (position t)
      in holonomic_best_delta_angle_rad d_a)"

section \<open>Arrival windows\<close>

definition holonomic_robot_in_xy_window :: "h_trajectory \<Rightarrow> real \<Rightarrow> bool" where
  "holonomic_robot_in_xy_window t dw =
     (let vcp = \<lparr>cart_x = pos_x (position t), cart_y = pos_y (position t)\<rparr>
      in vect2_dist_cart vcp (xy_target t) < dw)"

definition holonomic_robot_in_angle_window :: "h_trajectory \<Rightarrow> real \<Rightarrow> bool" where
  "holonomic_robot_in_angle_window t a_win_rad =
     (let d_a = a_target t - pos_a_rad (position t)
      in if ABS d_a < pi then ABS d_a < a_win_rad / 2
         else 2 * pi - ABS d_a < a_win_rad / 2)"

section \<open>Rate limiter and drive sink\<close>

text \<open>
  \<open>holonomic_do_ramp\<close> updates the static \<open>prev_speed\<close> and returns it. The comparison
  \<open>consign >= prev_speed\<close> is signed; the addition is two's complement.
\<close>

definition holonomic_do_ramp :: "world \<Rightarrow> 32 word \<Rightarrow> 32 word \<times> world" where
  "holonomic_do_ramp w consign =
     (let step = (20 :: 32 word);
          p = prev_speed w + (if sint (prev_speed w) \<le> sint consign then step else - step)
      in (p, w\<lparr>prev_speed := p\<rparr>))"

definition set_consigns_to_rsh :: "world \<Rightarrow> 32 word \<Rightarrow> 32 word \<Rightarrow> 32 word \<Rightarrow> world" where
  "set_consigns_to_rsh w speed direction omega =
     (let (s, w1) = holonomic_do_ramp w speed;
          t1 = (traj w1)\<lparr>robot := rsh_set_speed (robot (traj w1)) s\<rparr>;
          t2 = t1\<lparr>robot := rsh_set_direction_int (robot t1) direction\<rparr>;
          t3 = t2\<lparr>robot := rsh_set_rotation_speed (robot t2) omega\<rparr>
      in w1\<lparr>traj := t3\<rparr>)"

section \<open>Arming and disarming the periodic event\<close>

text \<open>
  Modelled from the spec: the scheduler is not in the sources; registering a callback
  returns a task handle and deregistering takes a task handle. \<open>scheduler_del_event\<close>
  takes the handle out of the registered events;
  \<open>scheduler_add_periodical_event_priority\<close> registers the event and returns its handle,
  which the scheduler chooses: the handle is the parameter \<open>h\<close> of
  \<open>holonomic_schedule_event\<close>. The callback, the period \<open>TRAJ_EVT_PERIOD\<close> and the
  priority 30 are the same in every registration and are not kept.
\<close>

definition scheduler_del_event :: "8 word list \<Rightarrow> 8 word \<Rightarrow> 8 word list" where
  "scheduler_del_event evs h = removeAll h evs"

definition scheduler_add_periodical_event_priority :: "8 word list \<Rightarrow> 8 word \<Rightarrow> 8 word \<times> 8 word list" where
  "scheduler_add_periodical_event_priority evs h = (h, evs @ [h])"

definition holonomic_delete_event :: "world \<Rightarrow> world" where
  "holonomic_delete_event w =
     (let w1 = w\<lparr>prev_speed := 0\<rparr>;
          w2 = w1\<lparr>traj := (traj w1)\<lparr>end_of_traj := 1\<rparr>\<rparr>;
          w3 = set_consigns_to_rsh w2 0 (pos_theta_v_int (position (traj w2))) 0;
          w4 = w3\<lparr>traj := (traj w3)\<lparr>robot := rsh_set_speed (robot (traj w3)) 0\<rparr>\<rparr>
      in if scheduler_task (traj w4) \<noteq> - 1
         then w4\<lparr>debug_log := debug_log w4 @ [''Delete event''],
                 scheduler := scheduler_del_event (scheduler w4) (scheduler_task (traj w4)),
                 traj := (traj w4)\<lparr>scheduler_task := - 1\<rparr>\<rparr>
         else w4)"

definition holonomic_schedule_event :: "8 word \<Rightarrow> world \<Rightarrow> world" where
  "holonomic_schedule_event h w =
     (if scheduler_task (traj w) \<noteq> - 1
      then w\<lparr>debug_log := debug_log w @ [''Schedule event, already scheduled'']\<rparr>
      else (let (task, evs) = scheduler_add_periodical_event_priority (scheduler w) h
            in w\<lparr>scheduler := evs, traj := (traj w)\<lparr>scheduler_task := task\<rparr>\<rparr>))"

section \<open>The periodic event\<close>

text \<open>\<open>SPEED_ROBOT\<close> and \<open>ANGLE_INC\<close>, the two macros the event uses.\<close>

definition SPEED_ROBOT :: "32 word" where
  "SPEED_ROBOT = 500"

definition ANGLE_INC :: real where
  "ANGLE_INC = 5 / 100"

text \<open>
  The event computes three times the point of the circle that lies \<open>ang\<close> radians
  behind the direction from the centre to \<open>(x, y)\<close>: twice with \<open>ANGLE_INC\<close> for the
  keyframe, once with \<open>arc_angle\<close> for the arrival point.
\<close>

definition circle_point :: "h_trajectory \<Rightarrow> real \<Rightarrow> real \<Rightarrow> real \<Rightarrow> vect2_cart" where
  "circle_point t x y ang =
     \<lparr>cart_x = cart_x (circle_center t)
         + cos (atan2f (y - cart_y (circle_center t)) (x - cart_x (circle_center t)) - ang) * radius t,
      cart_y = cart_y (circle_center t)
         + sin (atan2f (y - cart_y (circle_center t)) (x - cart_x (circle_center t)) - ang) * radius t\<rparr>"

text \<open>
  Step 1, the switch on \<open>moving_state\<close>: the speed consign, the angle consign and the
  world with the keyframe written. \<open>distance2target\<close> and \<open>vec_target\<close> are computed
  before the switch, from the target as it is when the event starts. In \<open>SPEED_ROBOT/5\<close>
  both operands are positive, so the division of words is C's.
\<close>

definition event_moving_consign :: "world \<Rightarrow> 32 word \<times> 32 word \<times> world" where
  "event_moving_consign w =
     (let t = traj w;
          x = pos_x (position t);
          y = pos_y (position t);
          distance2target =
            int32_of_real (sqrt ((x - cart_x (xy_target t))\<^sup>2 + (y - cart_y (xy_target t))\<^sup>2));
          vec_target = \<lparr>cart_x = cart_x (xy_target t) - x, cart_y = cart_y (xy_target t) - y\<rparr>
      in case moving_state t of
           MOVING_STRAIGHT \<Rightarrow>
             (if sint distance2target < 250 then 2 * distance2target else SPEED_ROBOT,
              int32_of_real (TO_DEG (vect2_angle_vec_x_rad_cart vec_target)),
              w)
         | MOVING_CIRCLE \<Rightarrow>
             (let kf = (if cart_x (keyframe w) < 0 then circle_point t x y ANGLE_INC
                        else keyframe w)
              in (SPEED_ROBOT div 5,
                  int32_of_real (TO_DEG (vect2_angle_vec_x_rad_cart vec_target)),
                  w\<lparr>keyframe := kf, traj := t\<lparr>xy_target := kf\<rparr>\<rparr>))
         | MOVING_IDLE \<Rightarrow> (0, 0, w))"

text \<open>Step 2, the switch on \<open>turning_state\<close>: the angular speed consign.\<close>

definition event_turning_consign :: "h_trajectory \<Rightarrow> 32 word" where
  "event_turning_consign t =
     (case turning_state t of
        TURNING_CAP \<Rightarrow>
          (if a_target t - pos_a_rad (position t) < 0 \<or> a_target t - pos_a_rad (position t) > pi
           then 50 else - 50)
      | TURNING_SPEEDOFFSET \<Rightarrow> 1
      | TURNING_FACEPOINT \<Rightarrow> 1
      | TURNING_IDLE \<Rightarrow> 0)"

text \<open>
  The end of the event: the check of the angle window when the robot does not move, and
  otherwise the consigns passed on to the robot system.
\<close>

definition event_finish :: "world \<Rightarrow> 32 word \<Rightarrow> 32 word \<Rightarrow> 32 word \<Rightarrow> world" where
  "event_finish w s_consign a_consign o_consign =
     (if moving_state (traj w) = MOVING_IDLE
         \<and> holonomic_robot_in_angle_window (traj w) (a_win (traj w))
      then holonomic_delete_event (w\<lparr>traj := (traj w)\<lparr>turning_state := TURNING_IDLE\<rparr>\<rparr>)
      else set_consigns_to_rsh w s_consign a_consign o_consign)"

definition holonomic_trajectory_manager_event :: "world \<Rightarrow> world" where
  "holonomic_trajectory_manager_event w =
     (let x = pos_x (position (traj w));
          y = pos_y (position (traj w));
          vector_pos = \<lparr>cart_x = x, cart_y = y\<rparr>;
          (s_consign, a_consign, w1) = event_moving_consign w;
          o_consign = event_turning_consign (traj w1)
      in if turning_state (traj w1) = TURNING_IDLE
            \<and> holonomic_robot_in_xy_window (traj w1) (d_win (traj w1))
         then
           (if moving_state (traj w1) = MOVING_CIRCLE
            then
              (let w2 = w1\<lparr>keyframe := circle_point (traj w1) x y ANGLE_INC\<rparr>;
                   arrival = circle_point (traj w2) x y (arc_angle (traj w2))
               in if vect2_dist_cart arrival vector_pos < d_win (traj w2)
                  then holonomic_delete_event w2
                  else w2)
            else if sint (prev_speed w1) < 20
            then holonomic_delete_event (w1\<lparr>traj := (traj w1)\<lparr>moving_state := MOVING_IDLE\<rparr>\<rparr>)
            else event_finish w1 0 a_consign o_consign)
         else event_finish w1 s_consign a_consign o_consign)"

text \<open>
  A run of the event: between two calls the position source delivers a new reading.
  \<open>run_events\<close> feeds the readings in order, one call of the event for each.
\<close>

fun run_events :: "holonomic_robot_position list \<Rightarrow> world \<Rightarrow> world" where
  "run_events [] w = w"
| "run_events (p # ps) w =
     run_events ps (holonomic_trajectory_manager_event (w\<lparr>traj := (traj w)\<lparr>position := p\<rparr>\<rparr>))"

section \<open>Predicates and inputs of the statements\<close>

text \<open>
  The scheduler and the struct agree: the registered events are exactly the task the
  struct names, and none when the struct holds the value \<open>-1\<close>.
\<close>

definition armed_consistent :: "world \<Rightarrow> bool" where
  "armed_consistent w =
     (scheduler w = (if scheduler_task (traj w) = - 1 then [] else [scheduler_task (traj w)]))"

text \<open>
  The static keyframe is either still to be computed by the next event in circle mode
  (its \<open>x\<close> is negative, as in its initialiser \<open>{-1, -1}\<close>) or a point of the circle.
\<close>

definition keyframe_ok :: "world \<Rightarrow> bool" where
  "keyframe_ok w =
     (cart_x (keyframe w) < 0
      \<or> vect2_dist_cart (keyframe w) (circle_center (traj w)) = radius (traj w))"

text \<open>
  Modelled from the spec: \<open>holonomic_trajectory_init\<close> is not in the sources; the state
  is created at startup as zero/idle with no scheduler task. The statics have the
  values of their initialisers: \<open>prev_speed = 0\<close> and \<open>keyframe = {-1, -1}\<close>.
\<close>

definition position0 :: holonomic_robot_position where
  "position0 = \<lparr>pos_x = 0, pos_y = 0, pos_a_rad = 0, pos_theta_v = 0, pos_theta_v_int = 0\<rparr>"

definition traj0 :: h_trajectory where
  "traj0 =
     \<lparr>moving_state = MOVING_IDLE, turning_state = TURNING_IDLE,
      xy_target = \<lparr>cart_x = 0, cart_y = 0\<rparr>, a_target = 0,
      circle_center = \<lparr>cart_x = 0, cart_y = 0\<rparr>, arc_angle = 0, radius = 0,
      point2face = \<lparr>cart_x = 0, cart_y = 0\<rparr>, d_win = 0, a_win = 0, end_of_traj = 0,
      position = position0, robot = [], scheduler_task = - 1\<rparr>"

definition world0 :: world where
  "world0 = \<lparr>traj = traj0, prev_speed = 0, keyframe = \<lparr>cart_x = - 1, cart_y = - 1\<rparr>,
             scheduler = [], debug_log = []\<rparr>"

text \<open>
  A quarter arc around the origin with radius 1, commanded when the robot stood at
  \<open>(0, 1)\<close>: its end is \<open>(1, 0)\<close>, the point \<open>arc_angle\<close> behind the start. The robot
  stands at that end, the keyframe left by the event before is the same point, the
  turning axis is idle and the task with handle 0 is armed.
\<close>

definition world_arc_end :: world where
  "world_arc_end =
     world0\<lparr>keyframe := \<lparr>cart_x = 1, cart_y = 0\<rparr>,
            scheduler := [0],
            traj := traj0\<lparr>moving_state := MOVING_CIRCLE,
                         circle_center := \<lparr>cart_x = 0, cart_y = 0\<rparr>,
                         radius := 1, arc_angle := pi / 2, d_win := 1 / 10,
                         position := position0\<lparr>pos_x := 1, pos_y := 0\<rparr>,
                         scheduler_task := 0\<rparr>\<rparr>"

text \<open>
  Two arcs one after the other. The first is around the origin with radius 3, from
  the robot at \<open>(3, 0)\<close>, on the state at startup; one event runs. The second command
  keeps the centre and takes the radius 1, with the robot at \<open>(1, 0)\<close>. The static
  keyframe is what the event of the first arc left.
\<close>

definition world_first_arc :: world where
  "world_first_arc =
     world0\<lparr>traj := traj0\<lparr>moving_state := MOVING_CIRCLE,
                         circle_center := \<lparr>cart_x = 0, cart_y = 0\<rparr>,
                         radius := 3,
                         position := position0\<lparr>pos_x := 3, pos_y := 0\<rparr>\<rparr>\<rparr>"

definition world_second_arc :: world where
  "world_second_arc =
     (holonomic_trajectory_manager_event world_first_arc)
       \<lparr>traj := (traj (holonomic_trajectory_manager_event world_first_arc))
          \<lparr>radius := 1, position := position0\<lparr>pos_x := 1, pos_y := 0\<rparr>\<rparr>\<rparr>"

section \<open>Facts about the library functions\<close>

lemma pi_ge_three: "3 \<le> pi"
proof -
  have "sin (pi / 6) \<le> pi / 6" by (rule sin_x_le_x) simp
  then show ?thesis by (simp add: sin_30)
qed

lemma sint_plus20: "sint p < 2 ^ 31 - 20 \<Longrightarrow> sint (p + 20 :: 32 word) = sint p + 20"
proof -
  assume a: "sint p < 2 ^ 31 - 20"
  have lo: "- (2 ^ 31) \<le> sint p" using sint_ge [of p] by simp
  have "sint (p + 20) = signed_take_bit 31 (sint p + 20)"
    by (simp add: sint_word_ariths signed_take_bit_int_eq_self)
  also have "\<dots> = sint p + 20"
    using a lo by (intro signed_take_bit_int_eq_self) simp_all
  finally show ?thesis .
qed

lemma sint_minus20: "- (2 ^ 31) + 20 \<le> sint p \<Longrightarrow> sint (p - 20 :: 32 word) = sint p - 20"
proof -
  assume a: "- (2 ^ 31) + 20 \<le> sint p"
  have hi: "sint p < 2 ^ 31" using sint_lt [of p] by simp
  have "sint (p - 20) = signed_take_bit 31 (sint p - 20)"
    by (simp add: sint_word_ariths signed_take_bit_int_eq_self)
  also have "\<dots> = sint p - 20"
    using a hi by (intro signed_take_bit_int_eq_self) simp_all
  finally show ?thesis .
qed

section \<open>The functions in closed form\<close>

lemma holonomic_do_ramp_eq:
  "holonomic_do_ramp w c =
     (prev_speed w + (if sint (prev_speed w) \<le> sint c then 20 else - 20),
      w\<lparr>prev_speed := prev_speed w + (if sint (prev_speed w) \<le> sint c then 20 else - 20)\<rparr>)"
  by (simp add: holonomic_do_ramp_def Let_def)

lemma set_consigns_to_rsh_eq:
  "set_consigns_to_rsh w s d om =
     w\<lparr>prev_speed := prev_speed w + (if sint (prev_speed w) \<le> sint s then 20 else - 20),
       traj := (traj w)\<lparr>robot := robot (traj w) @
          [Rsh_set_speed (prev_speed w + (if sint (prev_speed w) \<le> sint s then 20 else - 20)),
           Rsh_set_direction_int d, Rsh_set_rotation_speed om]\<rparr>\<rparr>"
  by (simp add: set_consigns_to_rsh_def holonomic_do_ramp_eq rsh_set_speed_def
      rsh_set_direction_int_def rsh_set_rotation_speed_def Let_def)

lemma holonomic_delete_event_eq:
  "holonomic_delete_event w =
     (let r = robot (traj w) @
                [Rsh_set_speed 20, Rsh_set_direction_int (pos_theta_v_int (position (traj w))),
                 Rsh_set_rotation_speed 0, Rsh_set_speed 0]
      in if scheduler_task (traj w) \<noteq> - 1
         then w\<lparr>prev_speed := 20,
                debug_log := debug_log w @ [''Delete event''],
                scheduler := removeAll (scheduler_task (traj w)) (scheduler w),
                traj := (traj w)\<lparr>end_of_traj := 1, robot := r, scheduler_task := - 1\<rparr>\<rparr>
         else w\<lparr>prev_speed := 20, traj := (traj w)\<lparr>end_of_traj := 1, robot := r\<rparr>\<rparr>)"
  by (simp add: holonomic_delete_event_def set_consigns_to_rsh_eq rsh_set_speed_def
      scheduler_del_event_def Let_def)

lemma event_moving_consign_circle:
  "moving_state (traj w) = MOVING_CIRCLE \<Longrightarrow>
   snd (snd (event_moving_consign w)) =
     (let kf = (if cart_x (keyframe w) < 0
                then circle_point (traj w) (pos_x (position (traj w))) (pos_y (position (traj w)))
                       ANGLE_INC
                else keyframe w)
      in w\<lparr>keyframe := kf, traj := (traj w)\<lparr>xy_target := kf\<rparr>\<rparr>)"
  by (simp add: event_moving_consign_def Let_def)

lemma event_moving_consign_other:
  "moving_state (traj w) \<noteq> MOVING_CIRCLE \<Longrightarrow> snd (snd (event_moving_consign w)) = w"
  by (simp add: event_moving_consign_def Let_def split: h_trajectory_moving_state.split)

lemma event_circle_eq:
  assumes mc: "moving_state (traj w) = MOVING_CIRCLE"
  shows "holonomic_trajectory_manager_event w =
     (let x = pos_x (position (traj w));
          y = pos_y (position (traj w));
          w1 = snd (snd (event_moving_consign w))
      in if turning_state (traj w) = TURNING_IDLE
            \<and> holonomic_robot_in_xy_window (traj w1) (d_win (traj w))
         then (let w2 = w1\<lparr>keyframe := circle_point (traj w1) x y ANGLE_INC\<rparr>
               in if vect2_dist_cart (circle_point (traj w1) x y (arc_angle (traj w)))
                       \<lparr>cart_x = x, cart_y = y\<rparr> < d_win (traj w)
                  then holonomic_delete_event w2 else w2)
         else event_finish w1 (fst (event_moving_consign w)) (fst (snd (event_moving_consign w)))
                (event_turning_consign (traj w)))"
proof -
  obtain s a w1 where m: "event_moving_consign w = (s, a, w1)"
    by (cases "event_moving_consign w") auto
  have w1: "w1 = (let kf = (if cart_x (keyframe w) < 0
                then circle_point (traj w) (pos_x (position (traj w))) (pos_y (position (traj w)))
                       ANGLE_INC
                else keyframe w)
      in w\<lparr>keyframe := kf, traj := (traj w)\<lparr>xy_target := kf\<rparr>\<rparr>)"
    using event_moving_consign_circle [OF mc] m by simp
  have p: "turning_state (traj w1) = turning_state (traj w)" "moving_state (traj w1) = MOVING_CIRCLE"
    "d_win (traj w1) = d_win (traj w)" "arc_angle (traj w1) = arc_angle (traj w)"
    "event_turning_consign (traj w1) = event_turning_consign (traj w)"
    using mc by (simp_all add: w1 Let_def event_turning_consign_def)
  show ?thesis
    unfolding holonomic_trajectory_manager_event_def m prod.case
    by (simp add: Let_def p)
qed

section \<open>Properties of the angle utilities\<close>

text \<open>
  Below \<open>-pi\<close> the function returns \<open>2 * pi - a\<close>, a value above \<open>3 * pi\<close>.
\<close>

lemma holonomic_best_delta_angle_rad_below:
  assumes "a < - pi"
  shows "holonomic_best_delta_angle_rad a = 2 * pi - a \<and> 3 * pi < holonomic_best_delta_angle_rad a"
proof -
  have n: "\<not> pi < a" using assms pi_gt_zero by linarith
  show ?thesis using assms n by (simp add: holonomic_best_delta_angle_rad_def)
qed

text \<open>
  C1, as stated, at the angle 13 (above \<open>3 * pi\<close>): one subtraction of \<open>2 * pi\<close> leaves
  a value above \<open>pi\<close>, and a second application changes it again. At \<open>-pi\<close> the
  function returns \<open>-pi\<close>, the excluded end of the interval.
\<close>

theorem best_delta_angle_counterexample:
  "\<not> (- pi < holonomic_best_delta_angle_rad 13 \<and> holonomic_best_delta_angle_rad 13 \<le> pi)
   \<and> holonomic_best_delta_angle_rad (holonomic_best_delta_angle_rad 13)
       \<noteq> holonomic_best_delta_angle_rad 13
   \<and> \<not> (- pi < holonomic_best_delta_angle_rad (- pi)
          \<and> holonomic_best_delta_angle_rad (- pi) \<le> pi)"
  using pi_less_4 by (simp add: holonomic_best_delta_angle_rad_def)

text \<open>
  C1, amended: for every angle \<open>a\<close> with \<open>-pi < a \<le> 3 * pi\<close> the shortest-rotation
  normalize returns a value in \<open>(-pi, pi]\<close>; an angle above \<open>pi\<close> is mapped by subtracting
  \<open>2 * pi\<close>, an angle up to \<open>pi\<close> is returned as it is, and applying the function twice
  gives the same as applying it once.
\<close>

theorem best_delta_angle_range:
  assumes "- pi < a" and "a \<le> 3 * pi"
  shows "- pi < holonomic_best_delta_angle_rad a \<and> holonomic_best_delta_angle_rad a \<le> pi
    \<and> (pi < a \<longrightarrow> holonomic_best_delta_angle_rad a = a - 2 * pi)
    \<and> (a \<le> pi \<longrightarrow> holonomic_best_delta_angle_rad a = a)
    \<and> holonomic_best_delta_angle_rad (holonomic_best_delta_angle_rad a)
        = holonomic_best_delta_angle_rad a"
  using assms by (auto simp: holonomic_best_delta_angle_rad_def)

theorem best_delta_angle_range_witness:
  "- pi < 4 \<and> 4 \<le> 3 * pi
   \<and> - pi < holonomic_best_delta_angle_rad 4 \<and> holonomic_best_delta_angle_rad 4 \<le> pi
   \<and> holonomic_best_delta_angle_rad 4 = 4 - 2 * pi
   \<and> holonomic_best_delta_angle_rad (holonomic_best_delta_angle_rad 4)
        = holonomic_best_delta_angle_rad 4"
proof -
  have h1: "- pi < 4" using pi_gt_zero by linarith
  have h2: "4 \<le> 3 * pi" using pi_ge_three by linarith
  have h3: "pi < 4" by (rule pi_less_4)
  show ?thesis using best_delta_angle_range [OF h1 h2] h1 h2 h3 by blast
qed

lemma int32_of_real_4_over_pi: "int32_of_real (2 / (pi / 2)) = 1"
proof -
  have "\<lfloor>2 / (pi / 2)\<rfloor> = 1"
    using pi_less_4 pi_ge_three by (simp add: floor_eq_iff field_simps)
  then show ?thesis by (simp add: int32_of_real_def)
qed

lemma holonomic_modulo_2pi_2: "holonomic_modulo_2pi 2 = 2 - pi / 2"
  unfolding holonomic_modulo_2pi_def Let_def int32_of_real_4_over_pi
  using pi_ge_three pi_less_4 by (simp add: holonomic_simple_modulo_2pi_def)

text \<open>
  C2 at the angle 2, which lies in \<open>(-pi, pi]\<close> already: the reduction subtracts one
  \<open>M_PI_2\<close>, a quarter turn, and returns \<open>2 - pi / 2\<close>, which differs from 2 by no
  multiple of \<open>2 * pi\<close>.
\<close>

theorem holonomic_modulo_2pi_not_equivalent:
  "holonomic_modulo_2pi 2 = 2 - pi / 2
   \<and> \<not> (\<exists>k::int. holonomic_modulo_2pi 2 = 2 + 2 * pi * real_of_int k)"
proof
  show "holonomic_modulo_2pi 2 = 2 - pi / 2" by (rule holonomic_modulo_2pi_2)
  show "\<not> (\<exists>k::int. holonomic_modulo_2pi 2 = 2 + 2 * pi * real_of_int k)"
  proof
    assume "\<exists>k::int. holonomic_modulo_2pi 2 = 2 + 2 * pi * real_of_int k"
    then obtain k :: int where "2 - pi / 2 = 2 + 2 * pi * real_of_int k"
      by (auto simp: holonomic_modulo_2pi_2)
    then have "pi * (4 * real_of_int k + 1) = 0" by (simp add: algebra_simps)
    then have "real_of_int (4 * k + 1) = 0" by simp
    then have "4 * k + 1 = 0" by (simp only: of_int_eq_0_iff)
    then show False by presburger
  qed
qed

section \<open>Properties of the angle window\<close>

text \<open>
  C7: with \<open>d_a = a_target - heading\<close>, the angle-window predicate is true iff either
  \<open>|d_a| < pi\<close> and \<open>|d_a| < a_win / 2\<close>, or \<open>|d_a| \<ge> pi\<close> and
  \<open>2 * pi - |d_a| < a_win / 2\<close>; with the target 0.05, the heading \<open>2 * pi - 0.05\<close> and the
  window 0.3 it is true.
\<close>

theorem in_angle_window_iff:
  "holonomic_robot_in_angle_window t w =
     ((\<bar>a_target t - pos_a_rad (position t)\<bar> < pi
         \<and> \<bar>a_target t - pos_a_rad (position t)\<bar> < w / 2)
      \<or> (pi \<le> \<bar>a_target t - pos_a_rad (position t)\<bar>
         \<and> 2 * pi - \<bar>a_target t - pos_a_rad (position t)\<bar> < w / 2))
   \<and> holonomic_robot_in_angle_window
        (traj0\<lparr>a_target := 5 / 100, position := position0\<lparr>pos_a_rad := 2 * pi - 5 / 100\<rparr>\<rparr>)
        (3 / 10)"
proof
  show "holonomic_robot_in_angle_window t w =
     ((\<bar>a_target t - pos_a_rad (position t)\<bar> < pi
         \<and> \<bar>a_target t - pos_a_rad (position t)\<bar> < w / 2)
      \<or> (pi \<le> \<bar>a_target t - pos_a_rad (position t)\<bar>
         \<and> 2 * pi - \<bar>a_target t - pos_a_rad (position t)\<bar> < w / 2))"
    by (auto simp: holonomic_robot_in_angle_window_def ABS_def Let_def)
  have "(1 :: real) / 10 - 2 * pi < 0" using pi_ge_three by linarith
  then show "holonomic_robot_in_angle_window
        (traj0\<lparr>a_target := 5 / 100, position := position0\<lparr>pos_a_rad := 2 * pi - 5 / 100\<rparr>\<rparr>)
        (3 / 10)"
    using pi_ge_three by (simp add: holonomic_robot_in_angle_window_def ABS_def Let_def)
qed

theorem in_angle_window_iff_witness:
  "\<not> holonomic_robot_in_angle_window
        (traj0\<lparr>a_target := 1, position := position0\<lparr>pos_a_rad := 0\<rparr>\<rparr>) 1"
  using in_angle_window_iff [of "traj0\<lparr>a_target := 1, position := position0\<lparr>pos_a_rad := 0\<rparr>\<rparr>" 1]
    pi_ge_three
  by simp

section \<open>Properties of the rate limiter\<close>

text \<open>
  C3, as stated, at the previous speed 0 and the consign 10: the issued speed is 20,
  past the consign.
\<close>

theorem holonomic_do_ramp_overshoot_counterexample:
  "\<not> (sint (prev_speed world0) \<le> sint (10 :: 32 word)
        \<longrightarrow> sint (fst (holonomic_do_ramp world0 10)) \<le> sint (10 :: 32 word))"
  by (simp add: holonomic_do_ramp_eq world0_def)

text \<open>
  C3, amended: the rate limiter moves the issued speed by the fixed step 20, up when
  the consign is at least the previous speed and down otherwise. There is no clamp: the
  issued speed stays on its side of the consign when the gap is at least one step, and
  in every case its distance to the consign is at most the larger of the previous
  distance and 20. (The previous speed is at least 20 away from the ends of the 32-bit
  range.)
\<close>

theorem holonomic_do_ramp_fixed_step:
  assumes "- (2 ^ 31) + 20 \<le> sint (prev_speed w)" and "sint (prev_speed w) < 2 ^ 31 - 20"
  shows "prev_speed (snd (holonomic_do_ramp w c)) = fst (holonomic_do_ramp w c)
    \<and> sint (fst (holonomic_do_ramp w c)) =
        (if sint (prev_speed w) \<le> sint c then sint (prev_speed w) + 20
         else sint (prev_speed w) - 20)
    \<and> (sint (prev_speed w) + 20 \<le> sint c \<longrightarrow> sint (fst (holonomic_do_ramp w c)) \<le> sint c)
    \<and> (sint c \<le> sint (prev_speed w) - 20 \<longrightarrow> sint c \<le> sint (fst (holonomic_do_ramp w c)))
    \<and> \<bar>sint (fst (holonomic_do_ramp w c)) - sint c\<bar> \<le> max \<bar>sint (prev_speed w) - sint c\<bar> 20"
  using assms by (auto simp: holonomic_do_ramp_eq sint_plus20 sint_minus20)

theorem holonomic_do_ramp_fixed_step_witness:
  "- (2 ^ 31) + 20 \<le> sint (prev_speed world0) \<and> sint (prev_speed world0) < 2 ^ 31 - 20
   \<and> sint (fst (holonomic_do_ramp world0 100)) = 20
   \<and> sint (fst (holonomic_do_ramp world0 100)) \<le> sint (100 :: 32 word)"
proof -
  have h1: "- (2 ^ 31) + 20 \<le> sint (prev_speed world0)" by (simp add: world0_def)
  have h2: "sint (prev_speed world0) < 2 ^ 31 - 20" by (simp add: world0_def)
  have p: "sint (prev_speed world0) = 0" by (simp add: world0_def)
  show ?thesis
    using holonomic_do_ramp_fixed_step [OF h1 h2, of 100] h1 h2 by (simp add: p)
qed

text \<open>
  C10: every call of \<open>holonomic_do_ramp\<close> adds 20 to the stored previous speed when the
  consign is greater than or equal to it and subtracts 20 otherwise, so the change is
  20 in absolute value; a consign equal to the previous speed makes the issued speed
  rise by 20. At the finish of a trajectory \<open>holonomic_delete_event\<close> resets the previous
  speed to zero and passes the consign zero through the rate limiter: the speed issued
  is 20 and the stored previous speed is left at 20.
\<close>

theorem holonomic_do_ramp_always_steps:
  "fst (holonomic_do_ramp w c) = prev_speed (snd (holonomic_do_ramp w c))
   \<and> prev_speed (snd (holonomic_do_ramp w c)) =
       (if sint (prev_speed w) \<le> sint c then prev_speed w + 20 else prev_speed w - 20)
   \<and> fst (holonomic_do_ramp w (prev_speed w)) = prev_speed w + 20
   \<and> (- (2 ^ 31) + 20 \<le> sint (prev_speed w) \<and> sint (prev_speed w) < 2 ^ 31 - 20 \<longrightarrow>
        \<bar>sint (prev_speed (snd (holonomic_do_ramp w c))) - sint (prev_speed w)\<bar> = 20)
   \<and> prev_speed (holonomic_delete_event w) = 20
   \<and> robot (traj (holonomic_delete_event w)) = robot (traj w) @
        [Rsh_set_speed 20, Rsh_set_direction_int (pos_theta_v_int (position (traj w))),
         Rsh_set_rotation_speed 0, Rsh_set_speed 0]"
  by (simp add: holonomic_do_ramp_eq sint_plus20 sint_minus20 holonomic_delete_event_eq Let_def)

theorem holonomic_do_ramp_always_steps_witness:
  "fst (holonomic_do_ramp world0 0) = 20
   \<and> \<bar>sint (prev_speed (snd (holonomic_do_ramp world0 0))) - sint (prev_speed world0)\<bar> = 20
   \<and> prev_speed (holonomic_delete_event world0) = 20"
proof -
  have p: "prev_speed world0 = 0" by (simp add: world0_def)
  show ?thesis
    using holonomic_do_ramp_always_steps [of world0 0] by (simp add: p)
qed

section \<open>Properties of arming and disarming\<close>

lemma armed_consistent_delete: "armed_consistent w \<Longrightarrow> armed_consistent (holonomic_delete_event w)"
  by (simp add: armed_consistent_def holonomic_delete_event_eq Let_def)

lemma armed_consistent_finish: "armed_consistent w \<Longrightarrow> armed_consistent (event_finish w s a om)"
  by (simp add: event_finish_def set_consigns_to_rsh_eq armed_consistent_def
      holonomic_delete_event_eq Let_def)

lemma armed_consistent_moving:
  "armed_consistent w \<Longrightarrow> armed_consistent (snd (snd (event_moving_consign w)))"
  by (simp add: armed_consistent_def event_moving_consign_def Let_def
      split: h_trajectory_moving_state.split)

lemma armed_consistent_event:
  assumes a: "armed_consistent w"
  shows "armed_consistent (holonomic_trajectory_manager_event w)"
proof -
  obtain s a' w1 where m: "event_moving_consign w = (s, a', w1)"
    by (cases "event_moving_consign w") auto
  have c1: "armed_consistent w1" using armed_consistent_moving [OF a] m by simp
  have k: "armed_consistent (w1\<lparr>keyframe := kf\<rparr>)" for kf
    using c1 by (simp add: armed_consistent_def)
  have i: "armed_consistent (w1\<lparr>traj := (traj w1)\<lparr>moving_state := MOVING_IDLE\<rparr>\<rparr>)"
    using c1 by (simp add: armed_consistent_def)
  show ?thesis
    unfolding holonomic_trajectory_manager_event_def Let_def m prod.case
    by (auto intro!: armed_consistent_delete armed_consistent_finish c1 k i)
qed

text \<open>
  C9: \<open>scheduler_task\<close> is \<open>-1\<close> iff no periodic evaluation is armed, and arming,
  disarming and the event itself keep it so (the handle the scheduler hands out is not
  \<open>-1\<close>). \<open>holonomic_schedule_event\<close> with a task already armed registers nothing: it
  only logs. \<open>holonomic_delete_event\<close> with no task armed leaves the scheduler, the value
  \<open>-1\<close> and the log as they are.
\<close>

theorem arming_idempotent_safe:
  assumes "armed_consistent w" and "h \<noteq> - 1"
  shows "(scheduler_task (traj w) = - 1 \<longleftrightarrow> scheduler w = [])
    \<and> armed_consistent (holonomic_schedule_event h w)
    \<and> armed_consistent (holonomic_delete_event w)
    \<and> armed_consistent (holonomic_trajectory_manager_event w)
    \<and> (scheduler_task (traj w) \<noteq> - 1 \<longrightarrow>
         holonomic_schedule_event h w
           = w\<lparr>debug_log := debug_log w @ [''Schedule event, already scheduled'']\<rparr>)
    \<and> (scheduler_task (traj w) = - 1 \<longrightarrow>
         scheduler (holonomic_delete_event w) = scheduler w
         \<and> scheduler_task (traj (holonomic_delete_event w)) = - 1
         \<and> debug_log (holonomic_delete_event w) = debug_log w)
    \<and> holonomic_schedule_event h (holonomic_schedule_event h w)
         = (holonomic_schedule_event h w)
             \<lparr>debug_log := debug_log (holonomic_schedule_event h w)
                 @ [''Schedule event, already scheduled'']\<rparr>
    \<and> scheduler (holonomic_delete_event (holonomic_delete_event w)) = []
    \<and> scheduler (holonomic_delete_event w) = []"
proof -
  have 1: "scheduler_task (traj w) = - 1 \<longleftrightarrow> scheduler w = []"
    using assms(1) by (simp add: armed_consistent_def)
  have 2: "armed_consistent (holonomic_schedule_event h w)"
    using assms by (simp add: armed_consistent_def holonomic_schedule_event_def
        scheduler_add_periodical_event_priority_def)
  have 3: "scheduler_task (traj w) \<noteq> - 1 \<longrightarrow>
         holonomic_schedule_event h w
           = w\<lparr>debug_log := debug_log w @ [''Schedule event, already scheduled'']\<rparr>"
    by (simp add: holonomic_schedule_event_def)
  have 4: "scheduler_task (traj w) = - 1 \<longrightarrow>
         scheduler (holonomic_delete_event w) = scheduler w
         \<and> scheduler_task (traj (holonomic_delete_event w)) = - 1
         \<and> debug_log (holonomic_delete_event w) = debug_log w"
    by (simp add: holonomic_delete_event_eq Let_def)
  have 5: "holonomic_schedule_event h (holonomic_schedule_event h w)
         = (holonomic_schedule_event h w)
             \<lparr>debug_log := debug_log (holonomic_schedule_event h w)
                 @ [''Schedule event, already scheduled'']\<rparr>"
    using assms(2) by (simp add: holonomic_schedule_event_def
        scheduler_add_periodical_event_priority_def)
  have 6: "scheduler (holonomic_delete_event w) = []"
    using assms(1) by (simp add: armed_consistent_def holonomic_delete_event_eq Let_def)
  have 7: "scheduler (holonomic_delete_event (holonomic_delete_event w)) = []"
    using armed_consistent_delete [OF assms(1)]
    by (simp add: armed_consistent_def holonomic_delete_event_eq Let_def)
  show ?thesis
    using 1 2 3 4 5 6 7 armed_consistent_delete [OF assms(1)] armed_consistent_event [OF assms(1)]
    by blast
qed

theorem arming_idempotent_safe_witness:
  "armed_consistent world0 \<and> (3 :: 8 word) \<noteq> - 1
   \<and> scheduler (holonomic_schedule_event 3 world0) = [3]
   \<and> scheduler (holonomic_schedule_event 3 (holonomic_schedule_event 3 world0)) = [3]
   \<and> scheduler (holonomic_delete_event world0) = []"
proof -
  have h1: "armed_consistent world0" by (simp add: armed_consistent_def world0_def traj0_def)
  have h2: "(3 :: 8 word) \<noteq> - 1" by simp
  have s: "scheduler (holonomic_schedule_event 3 world0) = [3]"
    by (simp add: holonomic_schedule_event_def world0_def traj0_def
        scheduler_add_periodical_event_priority_def)
  show ?thesis
    using arming_idempotent_safe [OF h1 h2] h1 h2 s by simp
qed

section \<open>Properties of straight moves\<close>

lemma sint_int32_of_real:
  assumes "0 \<le> r" and "r < 2 ^ 31"
  shows "sint (int32_of_real r) = \<lfloor>r\<rfloor>"
proof -
  have lo: "- (2 ^ 31) \<le> \<lfloor>r\<rfloor>" using assms(1) by (simp add: le_floor_iff)
  have hi: "\<lfloor>r\<rfloor> < 2 ^ 31" using assms(2) by (simp add: floor_less_iff)
  have "sint (word_of_int \<lfloor>r\<rfloor> :: 32 word) = signed_take_bit 31 \<lfloor>r\<rfloor>"
    by (simp add: sint_sbintrunc')
  also have "\<dots> = \<lfloor>r\<rfloor>" using lo hi by (intro signed_take_bit_int_eq_self) simp_all
  finally show ?thesis using assms(1) by (simp add: int32_of_real_def)
qed

lemma sint_double_small:
  assumes "0 \<le> sint (d :: 32 word)" and "sint d < 250"
  shows "sint (2 * d) = 2 * sint d"
proof -
  have "sint (2 * d) = signed_take_bit 31 (2 * sint d)"
    by (simp add: sint_word_ariths signed_take_bit_int_eq_self)
  also have "\<dots> = 2 * sint d" using assms by (intro signed_take_bit_int_eq_self) simp_all
  finally show ?thesis .
qed

lemma event_straight_eq:
  assumes ms: "moving_state (traj w) = MOVING_STRAIGHT"
    and nw: "\<not> (turning_state (traj w) = TURNING_IDLE
              \<and> holonomic_robot_in_xy_window (traj w) (d_win (traj w)))"
  shows "holonomic_trajectory_manager_event w =
     set_consigns_to_rsh w (fst (event_moving_consign w)) (fst (snd (event_moving_consign w)))
       (event_turning_consign (traj w))"
proof -
  obtain s a w1 where m: "event_moving_consign w = (s, a, w1)"
    by (cases "event_moving_consign w") auto
  have w1: "w1 = w" using event_moving_consign_other [of w] ms m by simp
  show ?thesis
    unfolding holonomic_trajectory_manager_event_def m prod.case
    using ms nw by (auto simp: Let_def w1 event_finish_def)
qed

text \<open>
  C8: in straight mode the speed consign of the event is the nominal cruise speed 500
  when the distance to \<open>xy_target\<close> is at least 250, and twice the distance (the integer
  \<open>distance2target\<close>, the distance truncated) when it is below 250; the distance 100
  gives 200. Unless the arrival check fires, this consign is the one passed to
  \<open>set_consigns_to_rsh\<close>. (The distance converts to \<open>int32_t\<close>: it is below \<open>2 ^ 31\<close>.)
\<close>

theorem straight_speed_taper:
  assumes "moving_state (traj w) = MOVING_STRAIGHT"
    and "vect2_dist_cart \<lparr>cart_x = pos_x (position (traj w)), cart_y = pos_y (position (traj w))\<rparr>
           (xy_target (traj w)) = D"
    and "D < 2 ^ 31"
  shows "(250 \<le> D \<longrightarrow> fst (event_moving_consign w) = 500)
    \<and> (D < 250 \<longrightarrow> fst (event_moving_consign w) = 2 * int32_of_real D
                    \<and> sint (fst (event_moving_consign w)) = 2 * \<lfloor>D\<rfloor>)
    \<and> (D = 100 \<longrightarrow> fst (event_moving_consign w) = 200)
    \<and> (\<not> (turning_state (traj w) = TURNING_IDLE
            \<and> holonomic_robot_in_xy_window (traj w) (d_win (traj w))) \<longrightarrow>
         holonomic_trajectory_manager_event w =
           set_consigns_to_rsh w (fst (event_moving_consign w))
             (fst (snd (event_moving_consign w))) (event_turning_consign (traj w)))"
proof -
  have d0: "0 \<le> D" using assms(2) by (auto simp: vect2_dist_cart_def)
  have s: "sint (int32_of_real D) = \<lfloor>D\<rfloor>" by (rule sint_int32_of_real [OF d0 assms(3)])
  have f: "fst (event_moving_consign w) =
      (if sint (int32_of_real D) < 250 then 2 * int32_of_real D else 500)"
    using assms(1) assms(2) by (simp add: event_moving_consign_def Let_def vect2_dist_cart_def
        SPEED_ROBOT_def)
  have lt: "sint (int32_of_real D) < 250 \<longleftrightarrow> D < 250" by (simp add: s)
  have a: "250 \<le> D \<longrightarrow> fst (event_moving_consign w) = 500" using f lt by auto
  have b: "D < 250 \<longrightarrow> fst (event_moving_consign w) = 2 * int32_of_real D
                    \<and> sint (fst (event_moving_consign w)) = 2 * \<lfloor>D\<rfloor>"
  proof
    assume l: "D < 250"
    have "0 \<le> sint (int32_of_real D)" using d0 by (simp add: s)
    moreover have "sint (int32_of_real D) < 250" using l lt by simp
    ultimately have "sint (2 * int32_of_real D) = 2 * sint (int32_of_real D)"
      by (rule sint_double_small)
    then show "fst (event_moving_consign w) = 2 * int32_of_real D
                    \<and> sint (fst (event_moving_consign w)) = 2 * \<lfloor>D\<rfloor>"
      using f l lt by (simp add: s)
  qed
  have c: "D = 100 \<longrightarrow> fst (event_moving_consign w) = 200"
  proof
    assume e: "D = 100"
    have "int32_of_real 100 = 100" by (simp add: int32_of_real_def)
    then show "fst (event_moving_consign w) = 200" using f e by simp
  qed
  show ?thesis using a b c event_straight_eq [OF assms(1)] by blast
qed

theorem straight_speed_taper_witness:
  "fst (event_moving_consign
     (world0\<lparr>traj := traj0\<lparr>moving_state := MOVING_STRAIGHT,
                            xy_target := \<lparr>cart_x = 100, cart_y = 0\<rparr>\<rparr>\<rparr>)) = 200"
proof -
  let ?w = "world0\<lparr>traj := traj0\<lparr>moving_state := MOVING_STRAIGHT,
                            xy_target := \<lparr>cart_x = 100, cart_y = 0\<rparr>\<rparr>\<rparr>"
  have h1: "moving_state (traj ?w) = MOVING_STRAIGHT" by simp
  have h2: "vect2_dist_cart \<lparr>cart_x = pos_x (position (traj ?w)), cart_y = pos_y (position (traj ?w))\<rparr>
           (xy_target (traj ?w)) = 100"
    by (simp add: vect2_dist_cart_def traj0_def position0_def)
  have h3: "(100 :: real) < 2 ^ 31" by simp
  have "(100 :: real) = 100 \<longrightarrow> fst (event_moving_consign ?w) = 200"
    using straight_speed_taper [OF h1 h2 h3] by blast
  then show ?thesis by simp
qed

section \<open>Properties of turning and of circle moves\<close>

lemma circle_point_dist:
  "0 \<le> radius t \<Longrightarrow> vect2_dist_cart (circle_point t x y ang) (circle_center t) = radius t"
proof -
  assume r: "0 \<le> radius t"
  have "(cos th * radius t)\<^sup>2 + (sin th * radius t)\<^sup>2 = (radius t)\<^sup>2" for th
  proof -
    have "(cos th * radius t)\<^sup>2 + (sin th * radius t)\<^sup>2
            = ((cos th)\<^sup>2 + (sin th)\<^sup>2) * (radius t)\<^sup>2"
      by (simp only: power_mult_distrib distrib_right)
    then show ?thesis by simp
  qed
  then show ?thesis using r by (simp add: vect2_dist_cart_def circle_point_def)
qed

lemma circle_point_xy_target:
  "circle_point (t\<lparr>xy_target := v\<rparr>) x y ang = circle_point t x y ang"
  by (simp add: circle_point_def)

lemma event_moving_consign_turning:
  "turning_state (traj (snd (snd (event_moving_consign w)))) = turning_state (traj w)
   \<and> moving_state (traj (snd (snd (event_moving_consign w)))) = moving_state (traj w)
   \<and> position (traj (snd (snd (event_moving_consign w)))) = position (traj w)
   \<and> a_target (traj (snd (snd (event_moving_consign w)))) = a_target (traj w)"
  by (simp add: event_moving_consign_def Let_def split: h_trajectory_moving_state.split)

text \<open>
  C4, as stated, at two states in face-point mode whose angle to the point to face
  differs (0 and -1): the angular speed consign is 1 in both.
\<close>

theorem facepoint_consign_counterexample:
  "event_turning_consign
     (traj0\<lparr>turning_state := TURNING_FACEPOINT, point2face := \<lparr>cart_x = 1, cart_y = 0\<rparr>\<rparr>) = 1
   \<and> event_turning_consign
     (traj0\<lparr>turning_state := TURNING_FACEPOINT, point2face := \<lparr>cart_x = 1, cart_y = 0\<rparr>,
            position := position0\<lparr>pos_a_rad := 1\<rparr>\<rparr>) = 1
   \<and> holonomic_angle_facepoint_rad
     (traj0\<lparr>turning_state := TURNING_FACEPOINT, point2face := \<lparr>cart_x = 1, cart_y = 0\<rparr>\<rparr>)
     \<lparr>cart_x = 1, cart_y = 0\<rparr> = 0
   \<and> holonomic_angle_facepoint_rad
     (traj0\<lparr>turning_state := TURNING_FACEPOINT, point2face := \<lparr>cart_x = 1, cart_y = 0\<rparr>,
            position := position0\<lparr>pos_a_rad := 1\<rparr>\<rparr>)
     \<lparr>cart_x = 1, cart_y = 0\<rparr> = - 1"
proof -
  have p: "\<not> pi < 1" "\<not> pi < - 1" "\<not> 1 > pi" using pi_ge_three by simp_all
  show ?thesis
    using p by (simp add: event_turning_consign_def holonomic_angle_facepoint_rad_def
        vect2_angle_vec_x_rad_cart_def atan2f_def holonomic_best_delta_angle_rad_def Let_def
        traj0_def position0_def)
qed

text \<open>
  C4, amended: in every event with \<open>turning_state\<close> \<open>TURNING_FACEPOINT\<close> the angular
  speed consign is the constant 1; \<open>holonomic_angle_facepoint_rad\<close> is not called. The
  event ends in the common tail with that consign, and when the robot is moving the last
  call to the robot system sets the rotation speed 1.
\<close>

theorem facepoint_consign_constant:
  assumes "turning_state (traj w) = TURNING_FACEPOINT"
  shows "event_turning_consign (traj w) = 1
    \<and> holonomic_trajectory_manager_event w =
        event_finish (snd (snd (event_moving_consign w))) (fst (event_moving_consign w))
          (fst (snd (event_moving_consign w))) 1
    \<and> (moving_state (traj w) \<noteq> MOVING_IDLE \<longrightarrow>
         last (robot (traj (holonomic_trajectory_manager_event w))) = Rsh_set_rotation_speed 1)"
proof -
  obtain s a w1 where m: "event_moving_consign w = (s, a, w1)"
    by (cases "event_moving_consign w") auto
  have t: "turning_state (traj w1) = TURNING_FACEPOINT" "moving_state (traj w1) = moving_state (traj w)"
    using event_moving_consign_turning [of w] m assms by simp_all
  have o: "event_turning_consign (traj w1) = 1" "event_turning_consign (traj w) = 1"
    using t assms by (simp_all add: event_turning_consign_def)
  have e: "holonomic_trajectory_manager_event w = event_finish w1 s a 1"
    unfolding holonomic_trajectory_manager_event_def m prod.case
    using t o by (simp add: Let_def)
  have l: "moving_state (traj w) \<noteq> MOVING_IDLE \<longrightarrow>
         last (robot (traj (event_finish w1 s a 1))) = Rsh_set_rotation_speed 1"
    using t by (simp add: event_finish_def set_consigns_to_rsh_eq)
  show ?thesis using o e l m by simp
qed

theorem facepoint_consign_constant_witness:
  "event_turning_consign (traj (world0\<lparr>traj := traj0\<lparr>turning_state := TURNING_FACEPOINT,
       moving_state := MOVING_STRAIGHT, point2face := \<lparr>cart_x = 1, cart_y = 0\<rparr>\<rparr>\<rparr>)) = 1
   \<and> last (robot (traj (holonomic_trajectory_manager_event
       (world0\<lparr>traj := traj0\<lparr>turning_state := TURNING_FACEPOINT,
       moving_state := MOVING_STRAIGHT, point2face := \<lparr>cart_x = 1, cart_y = 0\<rparr>\<rparr>\<rparr>))))
      = Rsh_set_rotation_speed 1"
proof -
  let ?w = "world0\<lparr>traj := traj0\<lparr>turning_state := TURNING_FACEPOINT,
       moving_state := MOVING_STRAIGHT, point2face := \<lparr>cart_x = 1, cart_y = 0\<rparr>\<rparr>\<rparr>"
  have h: "turning_state (traj ?w) = TURNING_FACEPOINT" by simp
  have n: "moving_state (traj ?w) \<noteq> MOVING_IDLE" by simp
  show ?thesis using facepoint_consign_constant [OF h] n by blast
qed

lemma delete_event_keeps:
  "keyframe (holonomic_delete_event w) = keyframe w
   \<and> circle_center (traj (holonomic_delete_event w)) = circle_center (traj w)
   \<and> radius (traj (holonomic_delete_event w)) = radius (traj w)
   \<and> xy_target (traj (holonomic_delete_event w)) = xy_target (traj w)
   \<and> moving_state (traj (holonomic_delete_event w)) = moving_state (traj w)"
  by (simp add: holonomic_delete_event_eq Let_def)

lemma event_finish_keeps:
  "keyframe (event_finish w s a om) = keyframe w
   \<and> circle_center (traj (event_finish w s a om)) = circle_center (traj w)
   \<and> radius (traj (event_finish w s a om)) = radius (traj w)
   \<and> xy_target (traj (event_finish w s a om)) = xy_target (traj w)"
  by (simp add: event_finish_def delete_event_keeps set_consigns_to_rsh_eq)

lemma event_finish_circle:
  "moving_state (traj w) = MOVING_CIRCLE \<Longrightarrow>
   moving_state (traj (event_finish w s a om)) = MOVING_CIRCLE"
  by (simp add: event_finish_def set_consigns_to_rsh_eq)

lemma event_circle_step:
  assumes mc: "moving_state (traj w) = MOVING_CIRCLE" and r: "0 \<le> radius (traj w)"
    and k: "keyframe_ok w"
  shows "vect2_dist_cart (xy_target (traj (holonomic_trajectory_manager_event w)))
           (circle_center (traj w)) = radius (traj w)
    \<and> keyframe_ok (holonomic_trajectory_manager_event w)
    \<and> moving_state (traj (holonomic_trajectory_manager_event w)) = MOVING_CIRCLE
    \<and> circle_center (traj (holonomic_trajectory_manager_event w)) = circle_center (traj w)
    \<and> radius (traj (holonomic_trajectory_manager_event w)) = radius (traj w)"
proof -
  define x where "x = pos_x (position (traj w))"
  define y where "y = pos_y (position (traj w))"
  define kf where
    "kf = (if cart_x (keyframe w) < 0 then circle_point (traj w) x y ANGLE_INC else keyframe w)"
  define w1 where "w1 = w\<lparr>keyframe := kf, traj := (traj w)\<lparr>xy_target := kf\<rparr>\<rparr>"
  define w2 where "w2 = w1\<lparr>keyframe := circle_point (traj w1) x y ANGLE_INC\<rparr>"
  have m: "snd (snd (event_moving_consign w)) = w1"
    using event_moving_consign_circle [OF mc] by (simp add: w1_def kf_def x_def y_def Let_def)
  have kf: "vect2_dist_cart kf (circle_center (traj w)) = radius (traj w)"
    using k r by (auto simp: kf_def keyframe_ok_def circle_point_dist)
  have f1: "xy_target (traj w1) = kf" "circle_center (traj w1) = circle_center (traj w)"
    "radius (traj w1) = radius (traj w)" "moving_state (traj w1) = MOVING_CIRCLE" "keyframe w1 = kf"
    using mc by (simp_all add: w1_def)
  have f2: "xy_target (traj w2) = kf" "circle_center (traj w2) = circle_center (traj w)"
    "radius (traj w2) = radius (traj w)" "moving_state (traj w2) = MOVING_CIRCLE"
    "vect2_dist_cart (keyframe w2) (circle_center (traj w)) = radius (traj w)"
    using f1 r by (simp_all add: w2_def w1_def circle_point_dist circle_point_xy_target)
  have "holonomic_trajectory_manager_event w = holonomic_delete_event w2
      \<or> holonomic_trajectory_manager_event w = w2
      \<or> (\<exists>s a om. holonomic_trajectory_manager_event w = event_finish w1 s a om)"
    by (simp add: event_circle_eq [OF mc] m Let_def w2_def x_def y_def) blast
  then consider (del) "holonomic_trajectory_manager_event w = holonomic_delete_event w2"
    | (stay) "holonomic_trajectory_manager_event w = w2"
    | (fin) s a om where "holonomic_trajectory_manager_event w = event_finish w1 s a om"
    by blast
  then show ?thesis
  proof cases
    case del
    then show ?thesis using f2 kf by (simp add: delete_event_keeps keyframe_ok_def)
  next
    case stay
    then show ?thesis using f2 kf by (simp add: keyframe_ok_def)
  next
    case fin
    then show ?thesis using f1 kf by (simp add: event_finish_keeps event_finish_circle keyframe_ok_def)
  qed
qed

lemma event_other_keeps:
  assumes nc: "moving_state (traj w) \<noteq> MOVING_CIRCLE"
  shows "keyframe (holonomic_trajectory_manager_event w) = keyframe w
    \<and> circle_center (traj (holonomic_trajectory_manager_event w)) = circle_center (traj w)
    \<and> radius (traj (holonomic_trajectory_manager_event w)) = radius (traj w)"
proof -
  obtain s a w1 where m: "event_moving_consign w = (s, a, w1)"
    by (cases "event_moving_consign w") auto
  have w1: "w1 = w" using event_moving_consign_other [OF nc] m by simp
  show ?thesis
    unfolding holonomic_trajectory_manager_event_def m prod.case w1
    using nc by (simp add: Let_def delete_event_keeps event_finish_keeps)
qed

lemma event_keyframe_ok:
  assumes r: "0 \<le> radius (traj w)" and k: "keyframe_ok w"
  shows "keyframe_ok (holonomic_trajectory_manager_event w)
    \<and> circle_center (traj (holonomic_trajectory_manager_event w)) = circle_center (traj w)
    \<and> radius (traj (holonomic_trajectory_manager_event w)) = radius (traj w)"
proof (cases "moving_state (traj w) = MOVING_CIRCLE")
  case True
  then show ?thesis using event_circle_step [OF True r k] by simp
next
  case False
  then show ?thesis using event_other_keeps [OF False] k by (simp add: keyframe_ok_def)
qed

lemma run_events_keyframe_ok:
  "0 \<le> radius (traj w) \<Longrightarrow> keyframe_ok w \<Longrightarrow>
   keyframe_ok (run_events ps w)
   \<and> circle_center (traj (run_events ps w)) = circle_center (traj w)
   \<and> radius (traj (run_events ps w)) = radius (traj w)"
proof (induction ps arbitrary: w)
  case Nil
  then show ?case by simp
next
  case (Cons p ps)
  define w' where "w' = w\<lparr>traj := (traj w)\<lparr>position := p\<rparr>\<rparr>"
  have h: "0 \<le> radius (traj w')" "keyframe_ok w'"
    using Cons.prems by (simp_all add: w'_def keyframe_ok_def)
  note st = event_keyframe_ok [OF h]
  have h2: "0 \<le> radius (traj (holonomic_trajectory_manager_event w'))"
    "keyframe_ok (holonomic_trajectory_manager_event w')"
    using st h by simp_all
  show ?case using Cons.IH [OF h2] st by (simp add: w'_def)
qed

lemma run_events_snoc:
  "run_events (ps @ [p]) w =
     holonomic_trajectory_manager_event
       ((run_events ps w)\<lparr>traj := (traj (run_events ps w))\<lparr>position := p\<rparr>\<rparr>)"
  by (induction ps arbitrary: w) simp_all

lemma run_events_next_on_circle:
  assumes r: "0 \<le> radius (traj w)" and k: "keyframe_ok w"
    and mc: "moving_state (traj (run_events ps w)) = MOVING_CIRCLE"
  shows "vect2_dist_cart (xy_target (traj (run_events (ps @ [p]) w))) (circle_center (traj w))
           = radius (traj w)"
proof -
  define v where "v = run_events ps w"
  define v' where "v' = v\<lparr>traj := (traj v)\<lparr>position := p\<rparr>\<rparr>"
  have i: "keyframe_ok v" "circle_center (traj v) = circle_center (traj w)"
    "radius (traj v) = radius (traj w)"
    using run_events_keyframe_ok [OF r k, of ps] by (simp_all add: v_def)
  have h: "moving_state (traj v') = MOVING_CIRCLE" "0 \<le> radius (traj v')" "keyframe_ok v'"
    using i r mc by (simp_all add: v'_def v_def keyframe_ok_def)
  have "vect2_dist_cart (xy_target (traj (holonomic_trajectory_manager_event v')))
          (circle_center (traj v')) = radius (traj v')"
    using event_circle_step [OF h] by simp
  then show ?thesis using i by (simp add: run_events_snoc v'_def v_def)
qed

text \<open>
  When the static keyframe is at its initial value or on the circle, and the radius is
  not negative, an event in circle mode writes into \<open>xy_target\<close> a point whose distance
  from \<open>circle_center\<close> is \<open>radius\<close>. Every event, in any mode, keeps the centre, the
  radius and that condition on the keyframe: as long as the centre and the radius are
  those of the first arc, the events in circle mode write points of the circle.
\<close>

lemma circle_keyframe_invariant:
  assumes "0 \<le> radius (traj w)" and "keyframe_ok w"
  shows "(moving_state (traj w) = MOVING_CIRCLE \<longrightarrow>
            vect2_dist_cart (xy_target (traj (holonomic_trajectory_manager_event w)))
              (circle_center (traj w)) = radius (traj w))
    \<and> keyframe_ok (holonomic_trajectory_manager_event w)
    \<and> circle_center (traj (holonomic_trajectory_manager_event w)) = circle_center (traj w)
    \<and> radius (traj (holonomic_trajectory_manager_event w)) = radius (traj w)
    \<and> (\<forall>ps p. moving_state (traj (run_events ps w)) = MOVING_CIRCLE \<longrightarrow>
          vect2_dist_cart (xy_target (traj (run_events (ps @ [p]) w))) (circle_center (traj w))
            = radius (traj w))"
proof -
  have a: "moving_state (traj w) = MOVING_CIRCLE \<longrightarrow>
            vect2_dist_cart (xy_target (traj (holonomic_trajectory_manager_event w)))
              (circle_center (traj w)) = radius (traj w)"
    using event_circle_step [OF _ assms] by blast
  show ?thesis
    using a event_keyframe_ok [OF assms] run_events_next_on_circle [OF assms] by blast
qed

lemma circle_keyframe_invariant_example:
  "keyframe_ok (world0\<lparr>traj := traj0\<lparr>moving_state := MOVING_CIRCLE, radius := 2\<rparr>\<rparr>)
   \<and> vect2_dist_cart
       (xy_target (traj (holonomic_trajectory_manager_event
          (world0\<lparr>traj := traj0\<lparr>moving_state := MOVING_CIRCLE, radius := 2\<rparr>\<rparr>))))
       \<lparr>cart_x = 0, cart_y = 0\<rparr> = 2
   \<and> vect2_dist_cart
       (xy_target (traj (run_events ([position0] @ [position0\<lparr>pos_x := 1\<rparr>])
          (world0\<lparr>traj := traj0\<lparr>moving_state := MOVING_CIRCLE, radius := 2\<rparr>\<rparr>))))
       \<lparr>cart_x = 0, cart_y = 0\<rparr> = 2"
proof -
  let ?w = "world0\<lparr>traj := traj0\<lparr>moving_state := MOVING_CIRCLE, radius := 2\<rparr>\<rparr>"
  let ?v = "?w\<lparr>traj := (traj ?w)\<lparr>position := position0\<rparr>\<rparr>"
  have h1: "moving_state (traj ?w) = MOVING_CIRCLE" by simp
  have h2: "0 \<le> radius (traj ?w)" by simp
  have h3: "keyframe_ok ?w" by (simp add: keyframe_ok_def world0_def)
  have c: "circle_center (traj ?w) = \<lparr>cart_x = 0, cart_y = 0\<rparr>" "radius (traj ?w) = 2"
    by (simp_all add: traj0_def)
  have v: "moving_state (traj ?v) = MOVING_CIRCLE" "0 \<le> radius (traj ?v)" "keyframe_ok ?v"
    by (simp_all add: keyframe_ok_def world0_def)
  have n: "moving_state (traj (run_events [position0] ?w)) = MOVING_CIRCLE"
    using event_circle_step [OF v] by simp
  show ?thesis
    using circle_keyframe_invariant [OF h2 h3] h1 h3 n unfolding c by blast
qed

lemma vect2_dist_cart_not_neg: "\<not> vect2_dist_cart v1 v2 < 0"
  by (simp add: vect2_dist_cart_def not_less)

lemma not_in_xy_window_0: "\<not> holonomic_robot_in_xy_window t 0"
  unfolding holonomic_robot_in_xy_window_def Let_def by (rule vect2_dist_cart_not_neg)

lemma cos_ANGLE_INC_pos: "0 < cos (5 / 100 :: real)"
proof -
  have "(5 / 100 :: real) < pi / 2" using pi_ge_three by linarith
  then show ?thesis by (intro cos_gt_zero) simp_all
qed

lemma first_arc_event:
  "keyframe (holonomic_trajectory_manager_event world_first_arc)
     = \<lparr>cart_x = cos (5 / 100) * 3, cart_y = - sin (5 / 100) * 3\<rparr>
   \<and> moving_state (traj (holonomic_trajectory_manager_event world_first_arc)) = MOVING_CIRCLE
   \<and> turning_state (traj (holonomic_trajectory_manager_event world_first_arc)) = TURNING_IDLE
   \<and> d_win (traj (holonomic_trajectory_manager_event world_first_arc)) = 0
   \<and> circle_center (traj (holonomic_trajectory_manager_event world_first_arc))
        = \<lparr>cart_x = 0, cart_y = 0\<rparr>"
proof -
  have mc: "moving_state (traj world_first_arc) = MOVING_CIRCLE"
    by (simp add: world_first_arc_def)
  have cp: "circle_point (traj world_first_arc) 3 0 ANGLE_INC
      = \<lparr>cart_x = cos (5 / 100) * 3, cart_y = - sin (5 / 100) * 3\<rparr>"
    by (simp add: circle_point_def world_first_arc_def traj0_def atan2f_def ANGLE_INC_def)
  have f: "pos_x (position (traj world_first_arc)) = 3" "pos_y (position (traj world_first_arc)) = 0"
    "d_win (traj world_first_arc) = 0" "turning_state (traj world_first_arc) = TURNING_IDLE"
    "cart_x (keyframe world_first_arc) < 0"
    "circle_center (traj world_first_arc) = \<lparr>cart_x = 0, cart_y = 0\<rparr>"
    by (simp_all add: world_first_arc_def world0_def traj0_def position0_def)
  have w1: "snd (snd (event_moving_consign world_first_arc))
      = world_first_arc\<lparr>keyframe := \<lparr>cart_x = cos (5 / 100) * 3, cart_y = - sin (5 / 100) * 3\<rparr>,
          traj := (traj world_first_arc)
            \<lparr>xy_target := \<lparr>cart_x = cos (5 / 100) * 3, cart_y = - sin (5 / 100) * 3\<rparr>\<rparr>\<rparr>"
    by (simp add: event_moving_consign_circle [OF mc] Let_def f cp)
  have nw: "\<not> holonomic_robot_in_xy_window (traj (snd (snd (event_moving_consign world_first_arc)))) 0"
    by (rule not_in_xy_window_0)
  have e: "holonomic_trajectory_manager_event world_first_arc
      = event_finish (snd (snd (event_moving_consign world_first_arc)))
          (fst (event_moving_consign world_first_arc))
          (fst (snd (event_moving_consign world_first_arc)))
          (event_turning_consign (traj world_first_arc))"
    using nw by (simp add: event_circle_eq [OF mc] Let_def f)
  show ?thesis
    using mc f by (simp add: e event_finish_keeps event_finish_def set_consigns_to_rsh_eq w1)
qed

text \<open>
  C6 at \<open>world_second_arc\<close>: the keyframe that the event of the first arc computed has a
  positive \<open>x\<close>, so the event of the second arc does not compute it again and copies it
  into \<open>xy_target\<close>. The event runs in circle mode with the radius 1, and the point it
  writes is at the distance 3 from \<open>circle_center\<close>.
\<close>

theorem circle_keyframe_stale:
  "moving_state (traj world_second_arc) = MOVING_CIRCLE
   \<and> circle_center (traj world_second_arc) = \<lparr>cart_x = 0, cart_y = 0\<rparr>
   \<and> radius (traj world_second_arc) = 1
   \<and> xy_target (traj (holonomic_trajectory_manager_event world_second_arc))
        = keyframe (holonomic_trajectory_manager_event world_first_arc)
   \<and> vect2_dist_cart (xy_target (traj (holonomic_trajectory_manager_event world_second_arc)))
        (circle_center (traj world_second_arc)) = 3"
proof -
  note fa = first_arc_event
  have mc: "moving_state (traj world_second_arc) = MOVING_CIRCLE"
    using fa by (simp add: world_second_arc_def)
  have f: "keyframe world_second_arc
             = \<lparr>cart_x = cos (5 / 100) * 3, cart_y = - sin (5 / 100) * 3\<rparr>"
    "turning_state (traj world_second_arc) = TURNING_IDLE"
    "d_win (traj world_second_arc) = 0"
    "circle_center (traj world_second_arc) = \<lparr>cart_x = 0, cart_y = 0\<rparr>"
    "radius (traj world_second_arc) = 1"
    using fa by (simp_all add: world_second_arc_def)
  have nn: "\<not> cart_x (keyframe world_second_arc) < 0"
    using cos_ANGLE_INC_pos by (simp add: f)
  have w1: "snd (snd (event_moving_consign world_second_arc))
      = world_second_arc\<lparr>traj := (traj world_second_arc)
            \<lparr>xy_target := keyframe world_second_arc\<rparr>\<rparr>"
    using nn by (simp add: event_moving_consign_circle [OF mc] Let_def)
  have nw: "\<not> holonomic_robot_in_xy_window (traj (snd (snd (event_moving_consign world_second_arc)))) 0"
    by (rule not_in_xy_window_0)
  have e: "holonomic_trajectory_manager_event world_second_arc
      = event_finish (snd (snd (event_moving_consign world_second_arc)))
          (fst (event_moving_consign world_second_arc))
          (fst (snd (event_moving_consign world_second_arc)))
          (event_turning_consign (traj world_second_arc))"
    using nw by (simp add: event_circle_eq [OF mc] Let_def f)
  have x: "xy_target (traj (holonomic_trajectory_manager_event world_second_arc))
      = \<lparr>cart_x = cos (5 / 100) * 3, cart_y = - sin (5 / 100) * 3\<rparr>"
    by (simp add: e event_finish_keeps w1 f)
  have "(cos (5 / 100 :: real) * 3)\<^sup>2 + (sin (5 / 100 :: real) * 3)\<^sup>2
          = ((cos (5 / 100))\<^sup>2 + (sin (5 / 100))\<^sup>2) * 3\<^sup>2"
    by (simp only: power_mult_distrib distrib_right)
  then have d: "sqrt ((cos (5 / 100 :: real) * 3)\<^sup>2 + (sin (5 / 100 :: real) * 3)\<^sup>2) = 3"
    by simp
  show ?thesis using mc f fa d by (simp add: x vect2_dist_cart_def)
qed

lemma sqrt2_not_small: "\<not> sqrt 2 < 1 / 10"
proof -
  have "1 \<le> sqrt 2" by simp
  then show ?thesis by linarith
qed

text \<open>
  C5 at \<open>world_arc_end\<close>: the arrival check fires, and the arrival point the event
  computes is not the end \<open>(1, 0)\<close> of the arc from its start \<open>(0, 1)\<close> but \<open>(0, -1)\<close>, the
  point \<open>arc_angle\<close> behind the present position. Its distance \<open>sqrt 2\<close> is not below
  \<open>d_win\<close>, so the event returns with the trajectory not marked done, the task still armed
  and no consign issued.
\<close>

theorem circle_arrival_from_current_pose:
  "turning_state (traj world_arc_end) = TURNING_IDLE
   \<and> holonomic_robot_in_xy_window (traj (snd (snd (event_moving_consign world_arc_end))))
        (d_win (traj world_arc_end))
   \<and> circle_point (traj world_arc_end) 0 1 (arc_angle (traj world_arc_end))
        = \<lparr>cart_x = pos_x (position (traj world_arc_end)),
           cart_y = pos_y (position (traj world_arc_end))\<rparr>
   \<and> circle_point (traj world_arc_end) (pos_x (position (traj world_arc_end)))
        (pos_y (position (traj world_arc_end))) (arc_angle (traj world_arc_end))
        = \<lparr>cart_x = 0, cart_y = - 1\<rparr>
   \<and> end_of_traj (traj (holonomic_trajectory_manager_event world_arc_end)) = 0
   \<and> scheduler_task (traj (holonomic_trajectory_manager_event world_arc_end)) = 0
   \<and> scheduler (holonomic_trajectory_manager_event world_arc_end) = [0]
   \<and> robot (traj (holonomic_trajectory_manager_event world_arc_end)) = []"
proof -
  have mc: "moving_state (traj world_arc_end) = MOVING_CIRCLE"
    by (simp add: world_arc_end_def)
  have a1: "atan2f 1 0 = pi / 2" "atan2f 0 1 = 0" by (simp_all add: atan2f_def)
  have cp1: "circle_point (traj world_arc_end) 0 1 (pi / 2) = \<lparr>cart_x = 1, cart_y = 0\<rparr>"
    by (simp add: circle_point_def world_arc_end_def traj0_def a1)
  have cp2: "circle_point (traj world_arc_end) 1 0 (pi / 2) = \<lparr>cart_x = 0, cart_y = - 1\<rparr>"
    by (simp add: circle_point_def world_arc_end_def traj0_def a1)
  have w1: "snd (snd (event_moving_consign world_arc_end))
      = world_arc_end\<lparr>traj := (traj world_arc_end)\<lparr>xy_target := \<lparr>cart_x = 1, cart_y = 0\<rparr>\<rparr>\<rparr>"
    by (simp add: event_moving_consign_circle [OF mc] Let_def) (simp add: world_arc_end_def world0_def)
  have f: "turning_state (traj world_arc_end) = TURNING_IDLE"
    "d_win (traj world_arc_end) = 1 / 10" "arc_angle (traj world_arc_end) = pi / 2"
    "pos_x (position (traj world_arc_end)) = 1" "pos_y (position (traj world_arc_end)) = 0"
    "end_of_traj (traj world_arc_end) = 0" "scheduler_task (traj world_arc_end) = 0"
    "scheduler world_arc_end = [0]" "robot (traj world_arc_end) = []"
    by (simp_all add: world_arc_end_def world0_def traj0_def position0_def)
  have win: "holonomic_robot_in_xy_window (traj (snd (snd (event_moving_consign world_arc_end))))
        (d_win (traj world_arc_end))"
    by (simp add: w1 holonomic_robot_in_xy_window_def vect2_dist_cart_def f)
  have far: "\<not> vect2_dist_cart \<lparr>cart_x = 0, cart_y = - 1\<rparr> \<lparr>cart_x = 1, cart_y = 0\<rparr> < 1 / 10"
    using sqrt2_not_small by (simp add: vect2_dist_cart_def)
  have e: "holonomic_trajectory_manager_event world_arc_end
      = (snd (snd (event_moving_consign world_arc_end)))
          \<lparr>keyframe := circle_point (traj world_arc_end) 1 0 ANGLE_INC\<rparr>"
    using win far
    by (simp add: event_circle_eq [OF mc] Let_def f) (simp add: w1 circle_point_xy_target cp2 f)
  show ?thesis
    using win cp1 cp2 by (simp add: e f) (simp add: w1 f)
qed

end
